theory Spec2Isabelle
  imports Complex_Main
begin

section \<open>Data model\<close>

text \<open>
  The enumerations of \<^verbatim>\<open>app/schemas/__init__.py\<close>. The member \<^verbatim>\<open>ActionType.TYPE\<close> is
  written \<open>TYPE_TEXT\<close>, the only name changed.
\<close>

datatype TaskStatus = PENDING | RUNNING | COMPLETED | FAILED | CANCELLED

datatype ActionType =
  CLICK | TYPE_TEXT | SCROLL | WAIT | NAVIGATE | SCREENSHOT | HOVER | DRAG_DROP | SELECT | UPLOAD

text \<open>
  A value of a JSON column (\<^verbatim>\<open>Dict[str, Any]\<close>): numbers are exact rationals, arrays and
  objects are not told apart.
\<close>

datatype pyval = PyNone | PyBool bool | PyNum rat | PyStr string | PyOther

text \<open>
  The messages of the \<^verbatim>\<open>ValueError\<close>s raised by the step executor, and the exceptions the
  modelled code meets. \<open>LibraryError\<close> is any exception coming out of Playwright,
  \<open>MapperError\<close> the one SQLAlchemy raises when it cannot configure the mappers,
  \<open>OverflowError\<close> the one of the SQLite driver for an integer outside 64 bits, and
  \<open>IntegrityError\<close> the one of a violated \<^verbatim>\<open>NOT NULL\<close>.
\<close>

datatype value_error =
    click_needs_selector
  | type_needs_selector
  | type_needs_text
  | navigate_needs_url
  | unsupported_action ActionType

datatype exn =
    ValueError value_error | AttributeError | TypeError | LibraryError
  | MapperError | OverflowError | IntegrityError

text \<open>
  The texts stored in \<^verbatim>\<open>Task.error_message\<close>: the three literals of
  \<^verbatim>\<open>ExecutionService.execute_task\<close>, its formatted text for an escaped exception, and the
  literal of \<^verbatim>\<open>TaskService.stop_task\<close>.
\<close>

datatype error_text =
    no_steps_configured
  | partial_steps_failed nat nat
  | all_steps_failed
  | task_execution_exception exn
  | stopped_by_user

text \<open>
  A row of \<^verbatim>\<open>tasks\<close>, keyed by its id in the table, with the columns the functions below
  read or write. \<^verbatim>\<open>TaskResponse.from_orm\<close> copies a row into an object of its own, so a
  value of this type is also what \<^verbatim>\<open>get_task\<close> returns.
\<close>

record Task =
  url :: string
  status :: TaskStatus
  error_message :: "error_text option"
  execution_count :: int
  success_count :: int
  failure_count :: int

text \<open>
  \<^verbatim>\<open>AutomationStepCreate\<close> and the row \<^verbatim>\<open>AutomationStep\<close>, which adds the primary key.
  \<^verbatim>\<open>wait_time\<close> is in milliseconds, \<^verbatim>\<open>timeout\<close> in seconds.
\<close>

record AutomationStepCreate =
  task_id :: int
  step_name :: string
  step_order :: int
  action_type :: ActionType
  target_selector :: "string option"
  target_text :: "string option"
  target_url :: "string option"
  parameters :: "(string \<times> pyval) list option"
  wait_time :: int
  timeout :: int

record AutomationStep = AutomationStepCreate +
  step_id :: int

datatype ActionResult =
    click_result string
  | type_result string string
  | scroll_result
  | wait_result pyval
  | navigate_result string
  | screenshot_result nat

datatype log_level = INFO | ERROR

datatype log_message =
    step_started string
  | step_succeeded string
  | step_failed string exn

record ExecutionLog =
  log_task_id :: int
  log_step_id :: int
  level :: log_level
  message :: log_message
  error_details :: "ActionResult option"

record BrowserSession =
  bs_session_id :: string
  bs_task_id :: "int option"
  bs_browser_type :: string
  bs_window_size :: string
  is_active :: bool

text \<open>
  The record store. \<open>mappers_ok\<close> says whether SQLAlchemy can configure the mappers of
  \<^verbatim>\<open>app/models/database.py\<close>. With the file as it is, it cannot: \<^verbatim>\<open>AutomationStep.task\<close>
  and \<^verbatim>\<open>Task.steps\<close> are relationships between two tables that no \<^verbatim>\<open>ForeignKey\<close> links
  (\<^verbatim>\<open>task_id\<close> is a plain \<^verbatim>\<open>Integer\<close> column), so the first query and the first instance of
  a mapped class raise, and every later one does. The field is true for a store whose
  mapping has been repaired; the tables are what the database file holds in either case.
\<close>

record database =
  mappers_ok :: bool
  tasks :: "int \<rightharpoonup> Task"
  steps :: "AutomationStep list"
  logs :: "ExecutionLog list"
  browser_sessions :: "BrowserSession list"

text \<open>
  An integer handed to a statement has to fit SQLite's 64-bit \<^verbatim>\<open>INTEGER\<close>. \<open>query_error\<close> is
  the exception, if any, of a query or a commit that binds the given integers.
\<close>

definition int64 :: "int \<Rightarrow> bool" where
  "int64 x = (- 9223372036854775808 \<le> x \<and> x \<le> 9223372036854775807)"

definition query_error :: "database \<Rightarrow> int list \<Rightarrow> exn option" where
  "query_error d bound =
     (if \<not> mappers_ok d then Some MapperError
      else if list_all int64 bound then None
      else Some OverflowError)"

text \<open>
  \<^verbatim>\<open>BrowserConfig\<close>; its field \<^verbatim>\<open>timeout\<close> is written \<open>config_timeout\<close>.
\<close>

record BrowserConfig =
  browser_type :: string
  headless :: bool
  window_size :: string
  user_agent :: "string option"
  proxy_url :: "string option"
  config_timeout :: int

text \<open>
  The objects Playwright hands out, and an entry of \<^verbatim>\<open>BrowserManager.active_browsers\<close>.
  \<^verbatim>\<open>launch_browser\<close> is the only writer of that dict and stores the keys \<^verbatim>\<open>"page"\<close>,
  \<^verbatim>\<open>"context"\<close> and \<^verbatim>\<open>"browser"\<close> together, so an entry has all three. A
  \<^verbatim>\<open>BrowserWrapper\<close> holds the same three objects and is modelled by the entry. The key
  \<^verbatim>\<open>"context"\<close> is the field \<open>browser_context\<close>.
\<close>

datatype handle = Page nat | Context nat | Browser nat

record session =
  page :: handle
  browser_context :: handle
  browser :: handle

record session_info =
  session_id :: string
  info_browser_type :: string
  control_url :: string

text \<open>
  The calls made to Playwright and to \<^verbatim>\<open>asyncio.sleep\<close>, in the order they are made.
  \<open>asyncio_sleep\<close> carries the delay in seconds, \<open>wait_for_selector\<close> and \<open>page_goto\<close> their
  timeout in milliseconds.
\<close>

datatype call =
    asyncio_sleep pyval
  | wait_for_selector string int
  | element_click string
  | element_fill string string
  | page_evaluate string
  | page_goto string int
  | page_screenshot bool
  | close_handle handle

text \<open>
  What the browser library answers: a parameter of every function that calls it. A call
  that does not succeed raises, and the exception is \<open>LibraryError\<close>. \<open>launch_outcome\<close>
  stands for \<^verbatim>\<open>BrowserManager.launch_browser\<close> from \<^verbatim>\<open>await self.initialize()\<close> to
  \<^verbatim>\<open>context.new_page()\<close>, \<open>uuid4\<close> for the identifier it draws.
\<close>

record library =
  launch_outcome :: "BrowserConfig option \<Rightarrow> exn + session"
  uuid4 :: string
  selector_appears :: "string \<Rightarrow> bool"
  click_succeeds :: "string \<Rightarrow> bool"
  fill_succeeds :: "string \<Rightarrow> string \<Rightarrow> bool"
  evaluate_succeeds :: "string \<Rightarrow> bool"
  goto_succeeds :: "string \<Rightarrow> bool"
  screenshot_bytes :: "nat option"
  close_succeeds :: "handle \<Rightarrow> bool"

text \<open>
  The state the services work on: the record store, the session registry of the
  service's \<^verbatim>\<open>BrowserManager\<close>, and the calls made so far. The progress records of
  \<^verbatim>\<open>ExecutionService.active_executions\<close> are written by a run and read by status queries
  only; they are not part of the state.
\<close>

record state =
  db :: database
  active_browsers :: "string \<rightharpoonup> session"
  calls :: "call list"

definition record_call :: "call \<Rightarrow> state \<Rightarrow> state" where
  "record_call c st = st\<lparr>calls := calls st @ [c]\<rparr>"

section \<open>Task records: \<^verbatim>\<open>TaskService\<close>\<close>

text \<open>
  \<^verbatim>\<open>get_task\<close> logs an exception of its query and raises it again.
\<close>

definition get_task :: "int \<Rightarrow> database \<Rightarrow> exn + Task option" where
  "get_task tid d =
     (case query_error d [tid] of
        Some e \<Rightarrow> Inl e
      | None \<Rightarrow> Inr (tasks d tid))"

text \<open>
  \<^verbatim>\<open>update_task_status\<close>: nothing happens for an unknown id; the message is stored only
  when one is given. An exception of the query is caught by the handler, which rolls back
  and returns: the row is then not written. The timestamps are not modelled.
\<close>

definition update_task_status ::
  "int \<Rightarrow> TaskStatus \<Rightarrow> error_text option \<Rightarrow> database \<Rightarrow> database" where
  "update_task_status tid new_status msg d =
     (case query_error d [tid] of
        Some e \<Rightarrow> d
      | None \<Rightarrow>
          (case tasks d tid of
             None \<Rightarrow> d
           | Some task \<Rightarrow>
               d\<lparr>tasks := (tasks d)(tid \<mapsto>
                    task\<lparr>status := new_status,
                         error_message := (case msg of None \<Rightarrow> error_message task
                                           | Some m \<Rightarrow> Some m)\<rparr>)\<rparr>))"

text \<open>
  \<^verbatim>\<open>stop_task\<close>: the handler of an exception returns \<^verbatim>\<open>False\<close>.
\<close>

definition stop_task :: "int \<Rightarrow> database \<Rightarrow> bool \<times> database" where
  "stop_task tid d =
     (case query_error d [tid] of
        Some e \<Rightarrow> (False, d)
      | None \<Rightarrow>
          (case tasks d tid of
             None \<Rightarrow> (False, d)
           | Some task \<Rightarrow>
               if status task \<noteq> RUNNING \<and> status task \<noteq> PENDING then (False, d)
               else (True, update_task_status tid CANCELLED (Some stopped_by_user) d)))"

section \<open>Browser Session Registry: \<^verbatim>\<open>BrowserManager\<close>\<close>

definition BrowserManager_launch_browser ::
  "library \<Rightarrow> BrowserConfig option \<Rightarrow> state \<Rightarrow> (exn + session_info) \<times> state" where
  "BrowserManager_launch_browser lib config st =
     (case launch_outcome lib config of
        Inl e \<Rightarrow> (Inl e, st)
      | Inr entry \<Rightarrow>
          (Inr \<lparr>session_id = uuid4 lib,
                info_browser_type =
                  (case config of None \<Rightarrow> ''chromium'' | Some c \<Rightarrow> browser_type c),
                control_url = ''ws://localhost:8000/ws/'' @ uuid4 lib\<rparr>,
           st\<lparr>active_browsers := (active_browsers st)(uuid4 lib \<mapsto> entry)\<rparr>))"

definition get_browser :: "string \<Rightarrow> state \<Rightarrow> session option" where
  "get_browser sid st = active_browsers st sid"

text \<open>
  \<^verbatim>\<open>BrowserManager.close_session\<close>: an exception of a \<^verbatim>\<open>close()\<close> is caught by the
  function's handler, which returns \<^verbatim>\<open>False\<close>; the statements after the failing call,
  the \<^verbatim>\<open>del\<close> among them, are then not reached.
\<close>

definition BrowserManager_close_session :: "library \<Rightarrow> string \<Rightarrow> state \<Rightarrow> bool \<times> state" where
  "BrowserManager_close_session lib sid st =
     (case active_browsers st sid of
        None \<Rightarrow> (False, st)
      | Some entry \<Rightarrow>
          let st = record_call (close_handle (page entry)) st in
          if \<not> close_succeeds lib (page entry) then (False, st)
          else
            let st = record_call (close_handle (browser_context entry)) st in
            if \<not> close_succeeds lib (browser_context entry) then (False, st)
            else
              let st = record_call (close_handle (browser entry)) st in
              if \<not> close_succeeds lib (browser entry) then (False, st)
              else (True, st\<lparr>active_browsers := (active_browsers st)(sid := None)\<rparr>))"

section \<open>Sessions in \<^verbatim>\<open>AutomationService\<close>\<close>

text \<open>
  \<^verbatim>\<open>AutomationService.launch_browser\<close>: after the registry has the new session, the row
  for the record store is built from \<^verbatim>\<open>config.browser_type\<close>, \<^verbatim>\<open>config.window_size\<close>
  and so on; for \<^verbatim>\<open>config = None\<close> the first of these attribute reads raises
  \<^verbatim>\<open>AttributeError\<close>. With a configuration, the instance of \<^verbatim>\<open>BrowserSession\<close> raises when
  the mappers cannot be configured; otherwise the row has \<^verbatim>\<open>task_id=None\<close> in a column
  declared \<^verbatim>\<open>nullable=False\<close>, and the commit raises \<^verbatim>\<open>IntegrityError\<close> and leaves no row.
  The handler logs the exception and raises it again, so no call returns the session
  information, and the session launched stays in the registry.
\<close>

definition AutomationService_launch_browser ::
  "library \<Rightarrow> BrowserConfig option \<Rightarrow> state \<Rightarrow> (exn + session_info) \<times> state" where
  "AutomationService_launch_browser lib config st =
     (case BrowserManager_launch_browser lib config st of
        (Inl e, st) \<Rightarrow> (Inl e, st)
      | (Inr info, st) \<Rightarrow>
          (case config of
             None \<Rightarrow> (Inl AttributeError, st)
           | Some c \<Rightarrow>
               (case query_error (db st) [] of
                  Some e \<Rightarrow> (Inl e, st)
                | None \<Rightarrow> (Inl IntegrityError, st))))"

fun deactivate :: "string \<Rightarrow> BrowserSession list \<Rightarrow> BrowserSession list" where
  "deactivate sid [] = []"
| "deactivate sid (r # rs) =
     (if bs_session_id r = sid then r\<lparr>is_active := False\<rparr> # rs else r # deactivate sid rs)"

text \<open>
  \<^verbatim>\<open>AutomationService.close_session\<close>: after a successful close the row of the session is
  looked up; an exception of that query is caught by the handler, which returns
  \<^verbatim>\<open>False\<close>.
\<close>

definition AutomationService_close_session :: "library \<Rightarrow> string \<Rightarrow> state \<Rightarrow> bool \<times> state" where
  "AutomationService_close_session lib sid st =
     (case BrowserManager_close_session lib sid st of
        (success, st) \<Rightarrow>
          if success
          then (case query_error (db st) [] of
                  Some e \<Rightarrow> (False, st)
                | None \<Rightarrow>
                    (success,
                     st\<lparr>db := (db st)\<lparr>browser_sessions :=
                                          deactivate sid (browser_sessions (db st))\<rparr>\<rparr>))
          else (success, st))"

definition BROWSER_TIMEOUT :: int where
  "BROWSER_TIMEOUT = 30"

text \<open>
  \<^verbatim>\<open>BrowserWrapper.goto\<close> and \<^verbatim>\<open>BrowserWrapper.find_element\<close>; the latter is called by
  the step executor without a timeout, so with its default of 30 seconds.
\<close>

definition goto :: "library \<Rightarrow> string \<Rightarrow> state \<Rightarrow> (exn + unit) \<times> state" where
  "goto lib target st =
     (let st = record_call (page_goto target (BROWSER_TIMEOUT * 1000)) st
      in if goto_succeeds lib target then (Inr (), st) else (Inl LibraryError, st))"

definition find_element :: "library \<Rightarrow> string \<Rightarrow> int \<Rightarrow> state \<Rightarrow> (exn + string) \<times> state" where
  "find_element lib selector seconds st =
     (let st = record_call (wait_for_selector selector (seconds * 1000)) st
      in if selector_appears lib selector then (Inr selector, st) else (Inl LibraryError, st))"

definition find_element_default_timeout :: int where
  "find_element_default_timeout = 30"

text \<open>
  \<^verbatim>\<open>AutomationService.navigate_to_url\<close>: an unknown session gives \<^verbatim>\<open>None.goto\<close>; after a
  successful \<^verbatim>\<open>goto\<close> the row of the session is looked up, which may raise; then the
  result dict calls \<^verbatim>\<open>browser.title()\<close>, and \<^verbatim>\<open>title\<close> is a string attribute of the
  wrapper, so the call raises \<^verbatim>\<open>TypeError\<close>. No path returns the dict. The value written
  to \<^verbatim>\<open>last_activity\<close>, a timestamp, is not modelled.
\<close>

definition navigate_to_url :: "library \<Rightarrow> string \<Rightarrow> string \<Rightarrow> state \<Rightarrow> (exn + unit) \<times> state" where
  "navigate_to_url lib sid target st =
     (case get_browser sid st of
        None \<Rightarrow> (Inl AttributeError, st)
      | Some b \<Rightarrow>
          (case goto lib target st of
             (Inl e, st) \<Rightarrow> (Inl e, st)
           | (Inr _, st) \<Rightarrow>
               (case query_error (db st) [] of
                  Some e \<Rightarrow> (Inl e, st)
                | None \<Rightarrow> (Inl TypeError, st))))"

section \<open>Step Executor: \<^verbatim>\<open>AutomationService.execute_step\<close>\<close>

text \<open>
  \<^verbatim>\<open>_log_execution\<close>: an exception of the instance or of the commit is caught and logged
  to the application log only; the entry is then not stored.
\<close>

definition log_execution ::
  "int \<Rightarrow> int \<Rightarrow> log_level \<Rightarrow> log_message \<Rightarrow> ActionResult option \<Rightarrow> state \<Rightarrow> state" where
  "log_execution tid sid lvl msg details st =
     (case query_error (db st) [tid, sid] of
        Some e \<Rightarrow> st
      | None \<Rightarrow>
          st\<lparr>db := (db st)\<lparr>logs := logs (db st) @
            [\<lparr>log_task_id = tid, log_step_id = sid, level = lvl, message = msg,
              error_details = details\<rparr>]\<rparr>\<rparr>)"

text \<open>
  \<^verbatim>\<open>asyncio.sleep(delay)\<close>: the delay is compared with zero first, which raises
  \<^verbatim>\<open>TypeError\<close> for a value that is not a number.
\<close>

definition sleep :: "pyval \<Rightarrow> state \<Rightarrow> (exn + unit) \<times> state" where
  "sleep delay st =
     (let st = record_call (asyncio_sleep delay) st
      in case delay of
           PyNum _ \<Rightarrow> (Inr (), st)
         | PyBool _ \<Rightarrow> (Inr (), st)
         | _ \<Rightarrow> (Inl TypeError, st))"

definition execute_click ::
  "library \<Rightarrow> AutomationStep \<Rightarrow> string \<Rightarrow> state \<Rightarrow> (exn + ActionResult) \<times> state" where
  "execute_click lib step sid st =
     (let b = get_browser sid st
      in case target_selector step of
           None \<Rightarrow> (Inl (ValueError click_needs_selector), st)
         | Some selector \<Rightarrow>
             if selector = [] then (Inl (ValueError click_needs_selector), st)
             else (case b of
                     None \<Rightarrow> (Inl AttributeError, st)
                   | Some _ \<Rightarrow>
                       (case find_element lib selector find_element_default_timeout st of
                          (Inl e, st) \<Rightarrow> (Inl e, st)
                        | (Inr element, st) \<Rightarrow>
                            let st = record_call (element_click element) st
                            in if click_succeeds lib element
                               then (Inr (click_result selector), st)
                               else (Inl LibraryError, st))))"

definition execute_type ::
  "library \<Rightarrow> AutomationStep \<Rightarrow> string \<Rightarrow> state \<Rightarrow> (exn + ActionResult) \<times> state" where
  "execute_type lib step sid st =
     (let b = get_browser sid st
      in case target_selector step of
           None \<Rightarrow> (Inl (ValueError type_needs_selector), st)
         | Some selector \<Rightarrow>
             if selector = [] then (Inl (ValueError type_needs_selector), st)
             else (case target_text step of
                     None \<Rightarrow> (Inl (ValueError type_needs_text), st)
                   | Some txt \<Rightarrow>
                       if txt = [] then (Inl (ValueError type_needs_text), st)
                       else (case b of
                               None \<Rightarrow> (Inl AttributeError, st)
                             | Some _ \<Rightarrow>
                                 (case find_element lib selector find_element_default_timeout st of
                                    (Inl e, st) \<Rightarrow> (Inl e, st)
                                  | (Inr element, st) \<Rightarrow>
                                      let st = record_call (element_fill element txt) st
                                      in if fill_succeeds lib element txt
                                         then (Inr (type_result selector txt), st)
                                         else (Inl LibraryError, st)))))"

definition execute_scroll ::
  "library \<Rightarrow> AutomationStep \<Rightarrow> string \<Rightarrow> state \<Rightarrow> (exn + ActionResult) \<times> state" where
  "execute_scroll lib step sid st =
     (case get_browser sid st of
        None \<Rightarrow> (Inl AttributeError, st)
      | Some _ \<Rightarrow>
          let script = ''window.scrollBy(0, window.innerHeight)'';
              st = record_call (page_evaluate script) st
          in if evaluate_succeeds lib script then (Inr scroll_result, st)
             else (Inl LibraryError, st))"

text \<open>
  \<^verbatim>\<open>_execute_wait\<close>: \<^verbatim>\<open>step.parameters.get("wait_time", step.timeout) if step.parameters
  else step.timeout\<close>; an empty dict is false in Python, as \<^verbatim>\<open>None\<close> is.
\<close>

definition execute_wait ::
  "AutomationStep \<Rightarrow> string \<Rightarrow> state \<Rightarrow> (exn + ActionResult) \<times> state" where
  "execute_wait step sid st =
     (let wait_time =
            (case parameters step of
               None \<Rightarrow> PyNum (of_int (timeout step))
             | Some ps \<Rightarrow>
                 if ps = [] then PyNum (of_int (timeout step))
                 else (case map_of ps ''wait_time'' of
                         None \<Rightarrow> PyNum (of_int (timeout step))
                       | Some v \<Rightarrow> v))
      in case sleep wait_time st of
           (Inl e, st) \<Rightarrow> (Inl e, st)
         | (Inr _, st) \<Rightarrow> (Inr (wait_result wait_time), st))"

definition execute_navigate ::
  "library \<Rightarrow> AutomationStep \<Rightarrow> string \<Rightarrow> state \<Rightarrow> (exn + ActionResult) \<times> state" where
  "execute_navigate lib step sid st =
     (let b = get_browser sid st
      in case target_url step of
           None \<Rightarrow> (Inl (ValueError navigate_needs_url), st)
         | Some target \<Rightarrow>
             if target = [] then (Inl (ValueError navigate_needs_url), st)
             else (case b of
                     None \<Rightarrow> (Inl AttributeError, st)
                   | Some _ \<Rightarrow>
                       (case goto lib target st of
                          (Inl e, st) \<Rightarrow> (Inl e, st)
                        | (Inr _, st) \<Rightarrow> (Inr (navigate_result target), st))))"

definition execute_screenshot ::
  "library \<Rightarrow> AutomationStep \<Rightarrow> string \<Rightarrow> state \<Rightarrow> (exn + ActionResult) \<times> state" where
  "execute_screenshot lib step sid st =
     (case get_browser sid st of
        None \<Rightarrow> (Inl AttributeError, st)
      | Some _ \<Rightarrow>
          let st = record_call (page_screenshot False) st
          in case screenshot_bytes lib of
               None \<Rightarrow> (Inl LibraryError, st)
             | Some n \<Rightarrow> (Inr (screenshot_result n), st))"

text \<open>
  The dispatch of \<^verbatim>\<open>execute_step\<close>, an \<^verbatim>\<open>if\<close>/\<^verbatim>\<open>elif\<close> chain over six action types
  whose \<^verbatim>\<open>else\<close> raises \<^verbatim>\<open>ValueError\<close>.
\<close>

definition dispatch ::
  "library \<Rightarrow> AutomationStep \<Rightarrow> string \<Rightarrow> state \<Rightarrow> (exn + ActionResult) \<times> state" where
  "dispatch lib step sid st =
     (if action_type step = CLICK then execute_click lib step sid st
      else if action_type step = TYPE_TEXT then execute_type lib step sid st
      else if action_type step = SCROLL then execute_scroll lib step sid st
      else if action_type step = WAIT then execute_wait step sid st
      else if action_type step = NAVIGATE then execute_navigate lib step sid st
      else if action_type step = SCREENSHOT then execute_screenshot lib step sid st
      else (Inl (ValueError (unsupported_action (action_type step))), st))"

text \<open>
  \<^verbatim>\<open>execute_step\<close>: a start entry in the log, the action, then either the success entry
  and the pause of \<^verbatim>\<open>step.wait_time / 1000\<close> seconds, or the handler's error entry and
  the exception again. The quotient is the exact rational; Python takes the double nearest
  to it.
\<close>

definition execute_step ::
  "library \<Rightarrow> AutomationStep \<Rightarrow> string \<Rightarrow> state \<Rightarrow> (exn + ActionResult) \<times> state" where
  "execute_step lib step sid st =
     (let st = log_execution (task_id step) (step_id step) INFO
                 (step_started (step_name step)) None st
      in case dispatch lib step sid st of
           (Inl e, st) \<Rightarrow>
             (Inl e, log_execution (task_id step) (step_id step) ERROR
                       (step_failed (step_name step) e) None st)
         | (Inr result, st) \<Rightarrow>
             let st = log_execution (task_id step) (step_id step) INFO
                        (step_succeeded (step_name step)) (Some result) st
             in if wait_time step > 0
                then (case sleep (PyNum (of_int (wait_time step) / 1000)) st of
                        (Inl e, st) \<Rightarrow>
                          (Inl e, log_execution (task_id step) (step_id step) ERROR
                                    (step_failed (step_name step) e) None st)
                      | (Inr _, st) \<Rightarrow> (Inr result, st))
                else (Inr result, st))"

section \<open>Task Orchestrator: \<^verbatim>\<open>ExecutionService.execute_task\<close>\<close>

text \<open>
  What happens around a run: the library's answers while the step at a given position of
  the loop is dispatched, its answers outside the loop (launch, first navigation, close),
  and the positions at which a stop request (\<^verbatim>\<open>TaskService.stop_task\<close>, through the stop
  route) has been served since the previous status check of the loop.
\<close>

record world =
  library_at :: "nat \<Rightarrow> library"
  library_outside :: library
  stop_before :: "nat \<Rightarrow> bool"

text \<open>
  The loop over the steps, from position \<open>i\<close> on, with the two tallies. The status is read
  again before each step, inside the \<^verbatim>\<open>try\<close>: an exception of \<^verbatim>\<open>get_task\<close> counts the step
  as failed, and so does a task that is gone, for which \<^verbatim>\<open>get_task\<close> gives \<^verbatim>\<open>None\<close> and
  \<^verbatim>\<open>current_task.status\<close> raises. \<^verbatim>\<open>execute_step\<close> has written its own error entry before
  the loop's handler writes a second one. The tally \<^verbatim>\<open>success_count\<close> is written
  \<open>success_cnt\<close>, the name being a column of the task. \<open>before_step\<close> is the state in which
  the status is read at position \<open>i\<close>: the loop's state, after the stop request if one was
  served.
\<close>

definition before_step :: "world \<Rightarrow> int \<Rightarrow> nat \<Rightarrow> state \<Rightarrow> state" where
  "before_step w tid i st =
     (if stop_before w i then st\<lparr>db := snd (stop_task tid (db st))\<rparr> else st)"

fun run_steps ::
  "world \<Rightarrow> int \<Rightarrow> string \<Rightarrow> nat \<Rightarrow> AutomationStep list \<Rightarrow> nat \<times> nat \<times> state
     \<Rightarrow> nat \<times> nat \<times> state" where
  "run_steps w tid sid i [] acc = acc"
| "run_steps w tid sid i (step # rest) (success_cnt, failed_count, st) =
     (let st = before_step w tid i st
      in case get_task tid (db st) of
           Inl e \<Rightarrow>
             run_steps w tid sid (Suc i) rest
               (success_cnt, Suc failed_count,
                log_execution tid (step_id step) ERROR
                  (step_failed (step_name step) e) None st)
         | Inr None \<Rightarrow>
             run_steps w tid sid (Suc i) rest
               (success_cnt, Suc failed_count,
                log_execution tid (step_id step) ERROR
                  (step_failed (step_name step) AttributeError) None st)
         | Inr (Some current_task) \<Rightarrow>
             if status current_task = CANCELLED then (success_cnt, failed_count, st)
             else (case execute_step (library_at w i) step sid st of
                     (Inr result, st) \<Rightarrow>
                       run_steps w tid sid (Suc i) rest (Suc success_cnt, failed_count, st)
                   | (Inl e, st) \<Rightarrow>
                       run_steps w tid sid (Suc i) rest
                         (success_cnt, Suc failed_count,
                          log_execution tid (step_id step) ERROR
                            (step_failed (step_name step) e) None st)))"

text \<open>
  Lines 98 to 100 of \<^verbatim>\<open>execute_task\<close>, on the object \<^verbatim>\<open>task\<close>. That object is the
  \<^verbatim>\<open>TaskResponse\<close> which \<^verbatim>\<open>get_task\<close> built from the row, not the row.
\<close>

definition update_statistics :: "Task \<Rightarrow> nat \<Rightarrow> nat \<Rightarrow> Task" where
  "update_statistics task success_cnt failed_count =
     task\<lparr>execution_count := execution_count task + 1,
          success_count := success_count task + int success_cnt,
          failure_count := failure_count task + int failed_count\<rparr>"

text \<open>Lines 103 to 111: the final status and its message.\<close>

definition final_status :: "nat \<Rightarrow> nat \<Rightarrow> nat \<Rightarrow> TaskStatus \<times> error_text option" where
  "final_status success_cnt failed_count total_steps =
     (if failed_count = 0 then (COMPLETED, None)
      else if success_cnt > 0
           then (COMPLETED, Some (partial_steps_failed failed_count total_steps))
           else (FAILED, Some all_steps_failed))"

text \<open>
  The inner \<^verbatim>\<open>try\<close> of \<^verbatim>\<open>execute_task\<close> with its \<^verbatim>\<open>finally\<close>, which closes the session
  on every path. An exception leaves through \<open>Inl\<close>: one of \<^verbatim>\<open>get_task\<close> at line 61, one of
  the first navigation, and the one of \<^verbatim>\<open>task.execution_count += 1\<close> for \<^verbatim>\<open>task = None\<close>.
  Otherwise the three additions change the local object only.
\<close>

definition run_in_session ::
  "world \<Rightarrow> int \<Rightarrow> string \<Rightarrow> AutomationStep list \<Rightarrow> state \<Rightarrow> (exn + unit) \<times> state" where
  "run_in_session w tid sid ordered st =
     (let (outcome, st) =
            (case get_task tid (db st) of
               Inl e \<Rightarrow> (Inl e, st)
             | Inr task \<Rightarrow>
                 (case (case task of
                          None \<Rightarrow> (Inr (), st)
                        | Some t \<Rightarrow>
                            if url t \<noteq> []
                            then navigate_to_url (library_outside w) sid (url t) st
                            else (Inr (), st)) of
                    (Inl e, st) \<Rightarrow> (Inl e, st)
                  | (Inr _, st) \<Rightarrow>
                      (case run_steps w tid sid 0 ordered (0, 0, st) of
                         (success_cnt, failed_count, st) \<Rightarrow>
                           (case task of
                              None \<Rightarrow> (Inl AttributeError, st)
                            | Some t \<Rightarrow>
                                let task = update_statistics t success_cnt failed_count;
                                    (status', msg) =
                                      final_status success_cnt failed_count (length ordered)
                                in (Inr (),
                                    st\<lparr>db := update_task_status tid status' msg (db st)\<rparr>)))))
      in (outcome, snd (AutomationService_close_session (library_outside w) sid st)))"

text \<open>
  \<^verbatim>\<open>execute_task\<close>: the steps are read in the order of \<^verbatim>\<open>step_order\<close> (rows with the
  same \<^verbatim>\<open>step_order\<close>, among which the store promises no order, keep the order of the
  table); an exception of that query goes to the outer handler. Without steps the task
  fails and the function returns. The session is launched with \<^verbatim>\<open>None\<close> for the
  configuration. Any exception reaching the outer handler marks the task as failed, through
  \<^verbatim>\<open>update_task_status\<close>.
\<close>

definition execute_task :: "world \<Rightarrow> int \<Rightarrow> state \<Rightarrow> state" where
  "execute_task w tid st =
     (let st = st\<lparr>db := update_task_status tid RUNNING None (db st)\<rparr>
      in case query_error (db st) [tid] of
           Some e \<Rightarrow>
             st\<lparr>db := update_task_status tid FAILED
                        (Some (task_execution_exception e)) (db st)\<rparr>
         | None \<Rightarrow>
             let ordered = sort_key step_order (filter (\<lambda>s. task_id s = tid) (steps (db st)))
             in if ordered = []
                then st\<lparr>db := update_task_status tid FAILED
                                (Some no_steps_configured) (db st)\<rparr>
                else (case AutomationService_launch_browser (library_outside w) None st of
                        (Inl e, st) \<Rightarrow>
                          st\<lparr>db := update_task_status tid FAILED
                                     (Some (task_execution_exception e)) (db st)\<rparr>
                      | (Inr info, st) \<Rightarrow>
                          (case run_in_session w tid (session_id info) ordered st of
                             (Inl e, st) \<Rightarrow>
                               st\<lparr>db := update_task_status tid FAILED
                                          (Some (task_execution_exception e)) (db st)\<rparr>
                           | (Inr _, st) \<Rightarrow> st)))"

section \<open>The routes that start runs\<close>








section \<open>Step records: \<^verbatim>\<open>AutomationService.create_step\<close>\<close>

text \<open>
  The primary key the table gives to a new row: one more than the largest key in use.
\<close>

definition next_step_id :: "AutomationStep list \<Rightarrow> int" where
  "next_step_id ss = fold max (map step_id ss) 0 + 1"

text \<open>
  \<^verbatim>\<open>create_step\<close>: the count of the task's rows replaces a negative \<^verbatim>\<open>step_order\<close>; the
  row is added and returned. The count query binds the task id, the commit binds the
  integers of the row (a negative \<^verbatim>\<open>step_order\<close> has been replaced by then, and a count
  comes from the store and fits); an exception of either is caught by the handler, which
  rolls back and raises it again, so that no row is stored.
\<close>

definition create_step ::
  "AutomationStepCreate \<Rightarrow> database \<Rightarrow> (exn + AutomationStep) \<times> database" where
  "create_step step_data d =
     (case query_error d [task_id step_data] of
        Some e \<Rightarrow> (Inl e, d)
      | None \<Rightarrow>
          let existing_steps =
                int (length (filter (\<lambda>s. task_id s = task_id step_data) (steps d)));
              fits = ((step_order step_data < 0 \<or> int64 (step_order step_data))
                      \<and> int64 (wait_time step_data) \<and> int64 (timeout step_data));
              step_data = (if step_order step_data < 0
                           then step_data\<lparr>step_order := existing_steps\<rparr> else step_data);
              step = AutomationStepCreate.extend step_data
                       (AutomationStep.fields (next_step_id (steps d)))
          in if fits then (Inr step, d\<lparr>steps := steps d @ [step]\<rparr>)
             else (Inl OverflowError, d))"

section \<open>Example inputs\<close>

text \<open>
  A library every call of which succeeds, a world in which nobody asks to stop, a step that
  waits for no time, and a session as \<^verbatim>\<open>launch_browser\<close> registers it. The example store
  has a repaired mapping; \<open>as_shipped\<close> gives a state the store of which has the mapping of
  \<^verbatim>\<open>app/models/database.py\<close> as it is.
\<close>

definition example_session :: session where
  "example_session = \<lparr>page = Page 0, browser_context = Context 0, browser = Browser 0\<rparr>"

definition obliging_library :: library where
  "obliging_library =
     \<lparr>launch_outcome = (\<lambda>_. Inr example_session), uuid4 = ''s1'',
      selector_appears = (\<lambda>_. True), click_succeeds = (\<lambda>_. True),
      fill_succeeds = (\<lambda>_ _. True), evaluate_succeeds = (\<lambda>_. True),
      goto_succeeds = (\<lambda>_. True), screenshot_bytes = Some 1024,
      close_succeeds = (\<lambda>_. True)\<rparr>"

definition quiet_world :: world where
  "quiet_world =
     \<lparr>library_at = (\<lambda>_. obliging_library), library_outside = obliging_library,
      stop_before = (\<lambda>_. False)\<rparr>"

definition example_step :: "ActionType \<Rightarrow> int \<Rightarrow> AutomationStep" where
  "example_step kind n =
     \<lparr>task_id = 1, step_name = ''step'', step_order = n, action_type = kind,
      target_selector = Some ''#go'', target_text = None, target_url = None,
      parameters = Some [(''wait_time'', PyNum 0)], wait_time = 0, timeout = 5,
      step_id = n + 1\<rparr>"

definition example_step_data :: "int \<Rightarrow> AutomationStepCreate" where
  "example_step_data n =
     \<lparr>task_id = 1, step_name = ''go'', step_order = n, action_type = CLICK,
      target_selector = Some ''#go'', target_text = None, target_url = None,
      parameters = None, wait_time = 0, timeout = 30\<rparr>"

definition example_task :: "string \<Rightarrow> TaskStatus \<Rightarrow> Task" where
  "example_task target s =
     \<lparr>url = target, status = s, error_message = None,
      execution_count = 0, success_count = 0, failure_count = 0\<rparr>"

definition example_state ::
  "Task \<Rightarrow> AutomationStep list \<Rightarrow> (string \<rightharpoonup> session) \<Rightarrow> state" where
  "example_state t ss reg =
     \<lparr>db = \<lparr>mappers_ok = True, tasks = [1 \<mapsto> t], steps = ss, logs = [],
            browser_sessions = []\<rparr>,
      active_browsers = reg, calls = []\<rparr>"

definition as_shipped :: "state \<Rightarrow> state" where
  "as_shipped st = st\<lparr>db := (db st)\<lparr>mappers_ok := False\<rparr>\<rparr>"

section \<open>Properties\<close>

subsection \<open>Writing a log entry commutes with every action\<close>

lemma log_execution_other [simp]:
  "calls (log_execution a b c d e st) = calls st"
  "active_browsers (log_execution a b c d e st) = active_browsers st"
  "get_browser sid (log_execution a b c d e st) = get_browser sid st"
  by (simp_all add: log_execution_def get_browser_def split: option.splits)

lemma record_call_log:
  "record_call c (log_execution a b l m e st) = log_execution a b l m e (record_call c st)"
  by (simp add: record_call_def log_execution_def split: option.splits)

lemma find_element_log:
  "find_element lib s t (log_execution a b c d e st)
     = (fst (find_element lib s t st), log_execution a b c d e (snd (find_element lib s t st)))"
  by (simp add: find_element_def Let_def record_call_log)

lemma goto_log:
  "goto lib u (log_execution a b c d e st)
     = (fst (goto lib u st), log_execution a b c d e (snd (goto lib u st)))"
  by (simp add: goto_def Let_def record_call_log)

lemma sleep_log:
  "sleep v (log_execution a b c d e st)
     = (fst (sleep v st), log_execution a b c d e (snd (sleep v st)))"
  by (simp add: sleep_def Let_def record_call_log split: pyval.splits)

lemma execute_click_log:
  "execute_click lib step sid (log_execution a b c d e st)
     = (fst (execute_click lib step sid st),
        log_execution a b c d e (snd (execute_click lib step sid st)))"
  by (simp add: execute_click_def Let_def find_element_log record_call_log
      split: option.splits prod.splits sum.splits)

lemma execute_type_log:
  "execute_type lib step sid (log_execution a b c d e st)
     = (fst (execute_type lib step sid st),
        log_execution a b c d e (snd (execute_type lib step sid st)))"
  by (simp add: execute_type_def Let_def find_element_log record_call_log
      split: option.splits prod.splits sum.splits)

lemma execute_scroll_log:
  "execute_scroll lib step sid (log_execution a b c d e st)
     = (fst (execute_scroll lib step sid st),
        log_execution a b c d e (snd (execute_scroll lib step sid st)))"
  by (simp add: execute_scroll_def Let_def record_call_log split: option.splits)

lemma execute_wait_log:
  "execute_wait step sid (log_execution a b c d e st)
     = (fst (execute_wait step sid st),
        log_execution a b c d e (snd (execute_wait step sid st)))"
  by (simp add: execute_wait_def Let_def sleep_log split: prod.splits sum.splits)

lemma execute_navigate_log:
  "execute_navigate lib step sid (log_execution a b c d e st)
     = (fst (execute_navigate lib step sid st),
        log_execution a b c d e (snd (execute_navigate lib step sid st)))"
  by (simp add: execute_navigate_def Let_def goto_log
      split: option.splits prod.splits sum.splits)

lemma execute_screenshot_log:
  "execute_screenshot lib step sid (log_execution a b c d e st)
     = (fst (execute_screenshot lib step sid st),
        log_execution a b c d e (snd (execute_screenshot lib step sid st)))"
  by (simp add: execute_screenshot_def Let_def record_call_log split: option.splits)

lemma dispatch_log:
  "dispatch lib step sid (log_execution a b c d e st)
     = (fst (dispatch lib step sid st), log_execution a b c d e (snd (dispatch lib step sid st)))"
  by (simp add: dispatch_def execute_click_log execute_type_log execute_scroll_log
        execute_wait_log execute_navigate_log execute_screenshot_log)

lemma execute_step_fst:
  "fst (execute_step lib step sid st) = fst (dispatch lib step sid st)"
  by (simp add: execute_step_def Let_def dispatch_log sleep_def
      split: prod.splits sum.splits)

subsection \<open>What a run of \<^verbatim>\<open>execute_task\<close> does\<close>

text \<open>
  \<^verbatim>\<open>execute_task\<close> launches its session with \<^verbatim>\<open>launch_browser(None)\<close>, and that call
  raises in every world, as it does with a configuration; with the store as shipped the
  query for the steps raises before. So no run dispatches a step: in every world and from
  every state a run leaves the log and the calls as they were, and it changes no counter of
  any row. With the store as shipped, and for a task id outside 64 bits, a run changes
  nothing at all. With a store that answers, a run on a task without steps changes the
  row of the task and nothing else.
\<close>

lemma update_task_status_other:
  "logs (update_task_status tid s m d) = logs d"
  "steps (update_task_status tid s m d) = steps d"
  "mappers_ok (update_task_status tid s m d) = mappers_ok d"
  by (simp_all add: update_task_status_def split: option.splits)

lemma update_task_status_counters:
  "map_option execution_count (tasks (update_task_status tid s m d) k)
     = map_option execution_count (tasks d k)"
  "map_option success_count (tasks (update_task_status tid s m d) k)
     = map_option success_count (tasks d k)"
  "map_option failure_count (tasks (update_task_status tid s m d) k)
     = map_option failure_count (tasks d k)"
  by (auto simp: update_task_status_def split: option.splits)


lemma update_task_status_unanswered:
  "\<not> mappers_ok d \<or> \<not> int64 tid \<Longrightarrow> update_task_status tid s m d = d"
  by (auto simp: update_task_status_def query_error_def)

lemma launch_browser_raises:
  "\<exists>e st'. AutomationService_launch_browser lib config st = (Inl e, st')
            \<and> db st' = db st \<and> calls st' = calls st"
  by (auto simp: AutomationService_launch_browser_def BrowserManager_launch_browser_def
      split: sum.splits option.splits)

lemma execute_task_launch:
  obtains e st' where
    "AutomationService_launch_browser (library_outside w) None
       (st\<lparr>db := update_task_status tid RUNNING None (db st)\<rparr>) = (Inl e, st')"
    and "db st' = update_task_status tid RUNNING None (db st)"
    and "calls st' = calls st"
  using launch_browser_raises
    [of "library_outside w" None "st\<lparr>db := update_task_status tid RUNNING None (db st)\<rparr>"]
  by auto

lemma execute_task_dispatches_no_step:
  "logs (db (execute_task w tid st)) = logs (db st)"
  "calls (execute_task w tid st) = calls st"
proof -
  obtain e st' where l:
    "AutomationService_launch_browser (library_outside w) None
       (st\<lparr>db := update_task_status tid RUNNING None (db st)\<rparr>) = (Inl e, st')"
    and d: "db st' = update_task_status tid RUNNING None (db st)"
    and c: "calls st' = calls st"
    by (rule execute_task_launch)
  show "logs (db (execute_task w tid st)) = logs (db st)"
    using l d by (simp add: execute_task_def Let_def update_task_status_other split: option.splits)
  show "calls (execute_task w tid st) = calls st"
    using l c by (simp add: execute_task_def Let_def split: option.splits)
qed

lemma execute_task_counters:
  "map_option execution_count (tasks (db (execute_task w tid st)) k)
     = map_option execution_count (tasks (db st) k)"
  "map_option success_count (tasks (db (execute_task w tid st)) k)
     = map_option success_count (tasks (db st) k)"
  "map_option failure_count (tasks (db (execute_task w tid st)) k)
     = map_option failure_count (tasks (db st) k)"
proof -
  obtain e st' where l:
    "AutomationService_launch_browser (library_outside w) None
       (st\<lparr>db := update_task_status tid RUNNING None (db st)\<rparr>) = (Inl e, st')"
    and d: "db st' = update_task_status tid RUNNING None (db st)"
    by (rule execute_task_launch)
  show "map_option execution_count (tasks (db (execute_task w tid st)) k)
     = map_option execution_count (tasks (db st) k)"
    using l d
    by (simp add: execute_task_def Let_def update_task_status_counters split: option.splits)
  show "map_option success_count (tasks (db (execute_task w tid st)) k)
     = map_option success_count (tasks (db st) k)"
    using l d
    by (simp add: execute_task_def Let_def update_task_status_counters split: option.splits)
  show "map_option failure_count (tasks (db (execute_task w tid st)) k)
     = map_option failure_count (tasks (db st) k)"
    using l d
    by (simp add: execute_task_def Let_def update_task_status_counters split: option.splits)
qed

lemma execute_task_unanswered:
  assumes "\<not> mappers_ok (db st) \<or> \<not> int64 tid"
  shows "execute_task w tid st = st"
proof -
  from assms have u: "\<And>s m. update_task_status tid s m (db st) = db st"
    by (rule update_task_status_unanswered)
  from assms have q: "query_error (db st) [tid] \<noteq> None"
    by (auto simp: query_error_def)
  from u q show ?thesis
    by (auto simp: execute_task_def Let_def split: option.splits)
qed

lemma no_steps_with_answering_store:
  assumes "mappers_ok (db st)" and "int64 tid" and "tasks (db st) tid = Some t"
    and "filter (\<lambda>s. task_id s = tid) (steps (db st)) = []"
  shows "execute_task w tid st
           = st\<lparr>db := (db st)\<lparr>tasks := (tasks (db st))(tid \<mapsto>
                  t\<lparr>status := FAILED, error_message := Some no_steps_configured\<rparr>)\<rparr>\<rparr>"
  using assms
  by (simp add: execute_task_def update_task_status_def query_error_def Let_def)

subsection \<open>Counters, and tasks without steps\<close>

text \<open>
  C2. The claim is that a run adds 1 to execution_count and its tallies to success_count
  and failure_count of the persisted task. On the task of C1 the run leaves the three
  counters at 0. The same holds for the body of the run started on a registered session
  and a task with an empty URL, where the step is executed, succeeds and the status
  becomes completed: the additions are made to the object \<^verbatim>\<open>get_task\<close> returned, and the
  row keeps its counters.
\<close>

theorem counters_not_persisted:
  "(let st = example_state (example_task ''http://a'' PENDING) [example_step WAIT 0] Map.empty;
        st' = execute_task quiet_world 1 st;
        inside = example_state (example_task [] RUNNING) [example_step WAIT 0]
                   [''s1'' \<mapsto> example_session];
        r = run_in_session quiet_world 1 ''s1'' [example_step WAIT 0] inside
    in map_option execution_count (tasks (db st') 1) = Some 0
       \<and> map_option success_count (tasks (db st') 1) = Some 0
       \<and> map_option failure_count (tasks (db st') 1) = Some 0
       \<and> fst r = Inr ()
       \<and> map message (logs (db (snd r))) = [step_started ''step'', step_succeeded ''step'']
       \<and> map_option status (tasks (db (snd r)) 1) = Some COMPLETED
       \<and> map_option execution_count (tasks (db (snd r)) 1) = Some 0
       \<and> map_option success_count (tasks (db (snd r)) 1) = Some 0
       \<and> map_option failure_count (tasks (db (snd r)) 1) = Some 0)"
  by (simp add: execute_task_def AutomationService_launch_browser_def
        BrowserManager_launch_browser_def update_task_status_def
        run_in_session_def get_task_def before_step_def final_status_def
        AutomationService_close_session_def BrowserManager_close_session_def
        execute_step_def dispatch_def execute_wait_def sleep_def log_execution_def query_error_def int64_def
        record_call_def Let_def quiet_world_def obliging_library_def example_state_def
        example_task_def example_step_def example_session_def)

text \<open>
  C3. The claim is that for a task without steps execute_task sets the status to failed
  with the message that no steps are configured, and launches no session. With the store
  as shipped, the run below on such a task changes nothing: every query raises, the
  handlers of \<^verbatim>\<open>update_task_status\<close> and of \<^verbatim>\<open>execute_task\<close> catch the exceptions, and the
  status stays pending without a message. No session is launched. With a repaired mapping
  the same run sets the status and the message as claimed.
\<close>

theorem no_steps_status_not_persisted:
  "(let st = example_state (example_task ''http://a'' PENDING) [] Map.empty;
        st' = execute_task quiet_world 1 (as_shipped st);
        st'' = execute_task quiet_world 1 st
    in filter (\<lambda>s. task_id s = 1) (steps (db (as_shipped st))) = []
       \<and> st' = as_shipped st
       \<and> map_option status (tasks (db st') 1) = Some PENDING
       \<and> map_option error_message (tasks (db st') 1) = Some None
       \<and> active_browsers st' = Map.empty \<and> calls st' = []
       \<and> map_option status (tasks (db st'') 1) = Some FAILED
       \<and> map_option error_message (tasks (db st'') 1) = Some (Some no_steps_configured))"
  by (simp add: execute_task_def update_task_status_def query_error_def int64_def Let_def
        as_shipped_def example_state_def example_task_def)

subsection \<open>Starting a task that is running\<close>




subsection \<open>The step executor\<close>

text \<open>
  C5, as amended. A click step fails with the missing-selector error exactly when its
  selector is absent or empty. With a selector and a registered session the element is
  waited for with a timeout of 30 seconds, whatever the step's timeout field, and is
  clicked when it appeared; the step succeeds when both calls do. A hover or select step
  is rejected as an unsupported action type, with or without a selector, after the start
  entry and before any call to the library.
\<close>

theorem selector_actions:
  "(action_type step = CLICK
      \<longrightarrow> (fst (execute_step lib step sid st) = Inl (ValueError click_needs_selector))
            = (target_selector step = None \<or> target_selector step = Some []))
   \<and> (action_type step = CLICK \<and> target_selector step = Some selector \<and> selector \<noteq> []
        \<and> active_browsers st sid = Some entry
      \<longrightarrow> calls (snd (dispatch lib step sid st))
            = calls st @ wait_for_selector selector 30000
                # (if selector_appears lib selector then [element_click selector] else [])
          \<and> fst (execute_step lib step sid st)
            = (if selector_appears lib selector \<and> click_succeeds lib selector
               then Inr (click_result selector) else Inl LibraryError))
   \<and> (action_type step = HOVER \<or> action_type step = SELECT
      \<longrightarrow> execute_step lib step sid st
            = (Inl (ValueError (unsupported_action (action_type step))),
               log_execution (task_id step) (step_id step) ERROR
                 (step_failed (step_name step)
                    (ValueError (unsupported_action (action_type step)))) None
                 (log_execution (task_id step) (step_id step) INFO
                    (step_started (step_name step)) None st)))"
proof (intro conjI impI)
  assume "action_type step = CLICK"
  then show "(fst (execute_step lib step sid st) = Inl (ValueError click_needs_selector))
               = (target_selector step = None \<or> target_selector step = Some [])"
    by (auto simp: execute_step_fst dispatch_def execute_click_def find_element_def
          find_element_default_timeout_def Let_def
        split: option.splits)
next
  assume "action_type step = CLICK \<and> target_selector step = Some selector \<and> selector \<noteq> []
            \<and> active_browsers st sid = Some entry"
  then show "calls (snd (dispatch lib step sid st))
               = calls st @ wait_for_selector selector 30000
                   # (if selector_appears lib selector then [element_click selector] else [])"
    by (simp add: dispatch_def execute_click_def find_element_def
          find_element_default_timeout_def get_browser_def record_call_def Let_def)
next
  assume "action_type step = CLICK \<and> target_selector step = Some selector \<and> selector \<noteq> []
            \<and> active_browsers st sid = Some entry"
  then show "fst (execute_step lib step sid st)
               = (if selector_appears lib selector \<and> click_succeeds lib selector
                  then Inr (click_result selector) else Inl LibraryError)"
    by (simp add: execute_step_fst dispatch_def execute_click_def find_element_def
          find_element_default_timeout_def get_browser_def Let_def)
next
  assume "action_type step = HOVER \<or> action_type step = SELECT"
  then show "execute_step lib step sid st
               = (Inl (ValueError (unsupported_action (action_type step))),
                  log_execution (task_id step) (step_id step) ERROR
                    (step_failed (step_name step)
                       (ValueError (unsupported_action (action_type step)))) None
                    (log_execution (task_id step) (step_id step) INFO
                       (step_started (step_name step)) None st))"
    by (auto simp: execute_step_def dispatch_def Let_def)
qed

theorem selector_actions_witness:
  "(let st = example_state (example_task '''' RUNNING) [] [''s1'' \<mapsto> example_session];
        c = example_step CLICK 0;
        n = (example_step CLICK 0)\<lparr>target_selector := None\<rparr>;
        h = example_step HOVER 0
    in action_type c = CLICK \<and> target_selector c = Some ''#go''
       \<and> active_browsers st ''s1'' = Some example_session
       \<and> calls (snd (dispatch obliging_library c ''s1'' st))
           = [wait_for_selector ''#go'' 30000, element_click ''#go'']
       \<and> fst (execute_step obliging_library c ''s1'' st) = Inr (click_result ''#go'')
       \<and> action_type n = CLICK \<and> target_selector n = None
       \<and> fst (execute_step obliging_library n ''s1'' st) = Inl (ValueError click_needs_selector)
       \<and> action_type h = HOVER
       \<and> fst (execute_step obliging_library h ''s1'' st)
           = Inl (ValueError (unsupported_action HOVER)))"
  using selector_actions
    [of "example_step CLICK 0" obliging_library "''s1''"
        "example_state (example_task '''' RUNNING) [] [''s1'' \<mapsto> example_session]"
        "''#go''" example_session]
    selector_actions
    [of "(example_step CLICK 0)\<lparr>target_selector := None\<rparr>" obliging_library "''s1''"
        "example_state (example_task '''' RUNNING) [] [''s1'' \<mapsto> example_session]"
        "''#go''" example_session]
    selector_actions
    [of "example_step HOVER 0" obliging_library "''s1''"
        "example_state (example_task '''' RUNNING) [] [''s1'' \<mapsto> example_session]"
        "''#go''" example_session]
  by (simp add: execute_step_def dispatch_def execute_click_def find_element_def
        find_element_default_timeout_def get_browser_def log_execution_def query_error_def int64_def
        record_call_def Let_def example_state_def example_step_def obliging_library_def)

text \<open>
  The claim as stated fails for hover and select, which are rejected although a selector is
  given; for the timeout, since a click step whose timeout is 5 seconds waits with 30; and
  for a selector that is present and empty, which counts as missing.
\<close>

theorem hover_select_unsupported:
  "(let st = example_state (example_task '''' RUNNING) [] [''s1'' \<mapsto> example_session];
        h = example_step HOVER 0;
        s = example_step SELECT 0;
        c = example_step CLICK 0
    in target_selector h = Some ''#go''
       \<and> fst (execute_step obliging_library h ''s1'' st)
           = Inl (ValueError (unsupported_action HOVER))
       \<and> target_selector s = Some ''#go''
       \<and> fst (execute_step obliging_library s ''s1'' st)
           = Inl (ValueError (unsupported_action SELECT))
       \<and> timeout c = 5
       \<and> calls (snd (execute_step obliging_library c ''s1'' st))
           = [wait_for_selector ''#go'' 30000, element_click ''#go'']
       \<and> fst (execute_step obliging_library (c\<lparr>target_selector := Some []\<rparr>) ''s1'' st)
           = Inl (ValueError click_needs_selector))"
  by (simp add: execute_step_def dispatch_def execute_click_def find_element_def
        find_element_default_timeout_def get_browser_def log_execution_def query_error_def int64_def
        record_call_def Let_def example_state_def example_step_def obliging_library_def)

text \<open>
  C6. A wait step hands to \<^verbatim>\<open>asyncio.sleep\<close>, which counts in seconds, the value of
  parameters.wait_time when the parameter map has that key, and the step's timeout field
  when the step has no parameter map or the map lacks the key; a numeric delay is the
  duration the result reports.
\<close>

theorem wait_duration:
  "(action_type step = WAIT \<and> parameters step = Some ps \<and> map_of ps ''wait_time'' = Some v
      \<longrightarrow> calls (snd (dispatch lib step sid st)) = calls st @ [asyncio_sleep v]
          \<and> (\<forall>q. v = PyNum q \<longrightarrow> fst (dispatch lib step sid st) = Inr (wait_result v)))
   \<and> (action_type step = WAIT
        \<and> (parameters step = None
             \<or> (parameters step = Some ps \<and> map_of ps ''wait_time'' = None))
      \<longrightarrow> calls (snd (dispatch lib step sid st))
            = calls st @ [asyncio_sleep (PyNum (of_int (timeout step)))]
          \<and> fst (dispatch lib step sid st)
            = Inr (wait_result (PyNum (of_int (timeout step)))))"
proof -
  have present:
    "calls (snd (dispatch lib step sid st)) = calls st @ [asyncio_sleep v]
     \<and> (\<forall>q. v = PyNum q \<longrightarrow> fst (dispatch lib step sid st) = Inr (wait_result v))"
    if "action_type step = WAIT" and "parameters step = Some ps"
      and "map_of ps ''wait_time'' = Some v"
  proof -
    from that(3) have "ps \<noteq> []"
      by auto
    with that show ?thesis
      by (simp add: dispatch_def execute_wait_def sleep_def record_call_def Let_def
          split: pyval.splits)
  qed
  have missing:
    "calls (snd (dispatch lib step sid st))
       = calls st @ [asyncio_sleep (PyNum (of_int (timeout step)))]
     \<and> fst (dispatch lib step sid st) = Inr (wait_result (PyNum (of_int (timeout step))))"
    if "action_type step = WAIT"
      and "parameters step = None \<or> (parameters step = Some ps \<and> map_of ps ''wait_time'' = None)"
    using that
    by (auto simp: dispatch_def execute_wait_def sleep_def record_call_def Let_def)
  from present missing show ?thesis
    by blast
qed

theorem wait_duration_witness:
  "(let st = example_state (example_task [] RUNNING) [] Map.empty;
        ps = [(''wait_time'', PyNum 2)];
        a = (example_step WAIT 0)\<lparr>parameters := Some ps\<rparr>;
        b = (example_step WAIT 0)\<lparr>parameters := None\<rparr>;
        c = (example_step WAIT 0)\<lparr>parameters := Some [(''other'', PyNone)]\<rparr>
    in action_type a = WAIT \<and> parameters a = Some ps
       \<and> map_of ps ''wait_time'' = Some (PyNum 2)
       \<and> calls (snd (dispatch obliging_library a ''s1'' st)) = [asyncio_sleep (PyNum 2)]
       \<and> fst (dispatch obliging_library a ''s1'' st) = Inr (wait_result (PyNum 2))
       \<and> action_type b = WAIT \<and> parameters b = None \<and> timeout b = 5
       \<and> calls (snd (dispatch obliging_library b ''s1'' st)) = [asyncio_sleep (PyNum 5)]
       \<and> action_type c = WAIT \<and> map_of [(''other'', PyNone)] ''wait_time'' = None
       \<and> calls (snd (dispatch obliging_library c ''s1'' st)) = [asyncio_sleep (PyNum 5)])"
  using wait_duration
    [of "(example_step WAIT 0)\<lparr>parameters := Some [(''wait_time'', PyNum 2)]\<rparr>"
        "[(''wait_time'', PyNum 2)]" "PyNum 2" obliging_library "''s1''"
        "example_state (example_task [] RUNNING) [] Map.empty"]
    wait_duration
    [of "(example_step WAIT 0)\<lparr>parameters := None\<rparr>" "[]" PyNone obliging_library "''s1''"
        "example_state (example_task [] RUNNING) [] Map.empty"]
    wait_duration
    [of "(example_step WAIT 0)\<lparr>parameters := Some [(''other'', PyNone)]\<rparr>"
        "[(''other'', PyNone)]" PyNone obliging_library "''s1''"
        "example_state (example_task [] RUNNING) [] Map.empty"]
  by (simp add: dispatch_def execute_wait_def sleep_def record_call_def Let_def
        example_state_def example_step_def)

text \<open>
  C7. A step that succeeds and declares wait_time > 0 (milliseconds) makes, after the calls
  of its action, one more call: a sleep of wait_time / 1000 seconds. A step that fails
  makes the calls of its action and no other.
\<close>

theorem post_step_wait:
  "(fst (execute_step lib step sid st) = Inr r \<and> 0 < wait_time step
      \<longrightarrow> calls (snd (execute_step lib step sid st))
            = calls (snd (dispatch lib step sid st))
              @ [asyncio_sleep (PyNum (of_int (wait_time step) / 1000))])
   \<and> (fst (execute_step lib step sid st) = Inl e
      \<longrightarrow> calls (snd (execute_step lib step sid st)) = calls (snd (dispatch lib step sid st)))"
  by (simp add: execute_step_def Let_def dispatch_log sleep_def record_call_def
      split: prod.splits sum.splits)

theorem post_step_wait_witness:
  "(let st = example_state (example_task '''' RUNNING) [] [''s1'' \<mapsto> example_session];
        a = (example_step CLICK 0)\<lparr>wait_time := 1500\<rparr>;
        b = (example_step CLICK 0)\<lparr>wait_time := 1500, target_selector := None\<rparr>
    in fst (execute_step obliging_library a ''s1'' st) = Inr (click_result ''#go'')
       \<and> 0 < wait_time a
       \<and> calls (snd (execute_step obliging_library a ''s1'' st))
           = [wait_for_selector ''#go'' 30000, element_click ''#go'',
              asyncio_sleep (PyNum (3 / 2))]
       \<and> fst (execute_step obliging_library b ''s1'' st)
           = Inl (ValueError click_needs_selector)
       \<and> calls (snd (execute_step obliging_library b ''s1'' st)) = [])"
  using post_step_wait
    [of obliging_library "(example_step CLICK 0)\<lparr>wait_time := 1500\<rparr>" "''s1''"
        "example_state (example_task '''' RUNNING) [] [''s1'' \<mapsto> example_session]"
        "click_result ''#go''" AttributeError]
    post_step_wait
    [of obliging_library
        "(example_step CLICK 0)\<lparr>wait_time := 1500, target_selector := None\<rparr>" "''s1''"
        "example_state (example_task '''' RUNNING) [] [''s1'' \<mapsto> example_session]"
        "click_result ''#go''" "ValueError click_needs_selector"]
  by (simp add: execute_step_def dispatch_def execute_click_def find_element_def
        find_element_default_timeout_def get_browser_def log_execution_def query_error_def int64_def sleep_def
        record_call_def Let_def example_state_def example_step_def obliging_library_def)

subsection \<open>The loop over the steps, by itself\<close>

text \<open>
  A task that is cancelled stays so under a further stop request, and the loop, once it
  has read the status cancelled after some prefix of the steps, returns the tallies and the
  state it had after that prefix. This is a fact of \<open>run_steps\<close> started on a state of its
  own; no run of \<^verbatim>\<open>execute_task\<close> gets as far as the loop.
\<close>

lemma before_step_cancelled:
  "tasks (db st) tid = Some t \<Longrightarrow> status t = CANCELLED \<Longrightarrow> before_step w tid j st = st"
  by (simp add: before_step_def stop_task_def split: option.splits)

lemma get_task_row:
  "get_task tid d = Inr r \<Longrightarrow> tasks d tid = r"
  by (simp add: get_task_def split: option.splits)

lemma run_steps_cancelled_after_prefix:
  "run_steps w tid sid i pre acc = (sc, fc, st') \<Longrightarrow>
   get_task tid (db (before_step w tid (i + length pre) st')) = Inr (Some t) \<Longrightarrow>
   status t = CANCELLED \<Longrightarrow>
   run_steps w tid sid i (pre @ step # post) acc
     = (sc, fc, before_step w tid (i + length pre) st')"
proof (induction pre arbitrary: i acc)
  case Nil
  then show ?case
    by (cases acc) auto
next
  case (Cons p ps)
  obtain a b st where acc: "acc = (a, b, st)"
    by (cases acc) auto
  show ?case
  proof (cases "get_task tid (db (before_step w tid i st))")
    case (Inl e)
    with Cons.prems acc Cons.IH [of "Suc i"] show ?thesis
      by simp
  next
    case (Inr r)
    show ?thesis
    proof (cases r)
      case None
      with Inr Cons.prems acc Cons.IH [of "Suc i"] show ?thesis
        by simp
    next
      case (Some current_task)
      show ?thesis
      proof (cases "status current_task = CANCELLED")
        case True
        with Inr Some Cons.prems acc
        have eq: "st' = before_step w tid i st" "sc = a" "fc = b"
          by simp_all
        from Inr Some eq have "tasks (db st') tid = Some current_task"
          by (simp add: get_task_row)
        from before_step_cancelled [OF this True]
        have "before_step w tid (i + length (p # ps)) st' = st'" .
        with Inr Some True acc eq show ?thesis
          by simp
      next
        case False
        with Inr Some Cons.prems acc Cons.IH [of "Suc i"] show ?thesis
          by (auto split: prod.splits sum.splits)
      qed
    qed
  qed
qed

subsection \<open>Closing a session\<close>

text \<open>
  C9, as amended. For an id that is not registered close_session returns false and leaves
  the state as it is. For a registered id it closes page, context and browser in that
  order; when none of the three calls raises it removes the entry and returns true, and a
  second close of the id returns false and changes nothing. When one of the calls raises
  it returns false, the closes after the failing one are not made, and the entry stays
  registered: nothing but the calls made is changed.
\<close>

theorem close_session_outcomes:
  "(active_browsers st sid = None \<longrightarrow> BrowserManager_close_session lib sid st = (False, st))
   \<and> (active_browsers st sid = Some entry
          \<and> close_succeeds lib (page entry) \<and> close_succeeds lib (browser_context entry)
          \<and> close_succeeds lib (browser entry)
        \<longrightarrow> BrowserManager_close_session lib sid st
              = (True, st\<lparr>active_browsers := (active_browsers st)(sid := None),
                          calls := calls st @ [close_handle (page entry),
                                               close_handle (browser_context entry),
                                               close_handle (browser entry)]\<rparr>)
            \<and> BrowserManager_close_session lib' sid
                 (snd (BrowserManager_close_session lib sid st))
              = (False, snd (BrowserManager_close_session lib sid st)))
   \<and> (active_browsers st sid = Some entry
          \<and> \<not> (close_succeeds lib (page entry) \<and> close_succeeds lib (browser_context entry)
                \<and> close_succeeds lib (browser entry))
        \<longrightarrow> fst (BrowserManager_close_session lib sid st) = False
            \<and> active_browsers (snd (BrowserManager_close_session lib sid st))
              = active_browsers st)
   \<and> (active_browsers st sid = Some entry \<and> \<not> close_succeeds lib (page entry)
        \<longrightarrow> BrowserManager_close_session lib sid st
              = (False, st\<lparr>calls := calls st @ [close_handle (page entry)]\<rparr>))
   \<and> (active_browsers st sid = Some entry \<and> close_succeeds lib (page entry)
          \<and> \<not> close_succeeds lib (browser_context entry)
        \<longrightarrow> BrowserManager_close_session lib sid st
              = (False, st\<lparr>calls := calls st @ [close_handle (page entry),
                                                 close_handle (browser_context entry)]\<rparr>))
   \<and> (active_browsers st sid = Some entry \<and> close_succeeds lib (page entry)
          \<and> close_succeeds lib (browser_context entry) \<and> \<not> close_succeeds lib (browser entry)
        \<longrightarrow> BrowserManager_close_session lib sid st
              = (False, st\<lparr>calls := calls st @ [close_handle (page entry),
                                                 close_handle (browser_context entry),
                                                 close_handle (browser entry)]\<rparr>))"
  by (auto simp: BrowserManager_close_session_def record_call_def Let_def)

theorem close_session_outcomes_witness:
  "(let st = example_state (example_task '''' PENDING) [] [''s1'' \<mapsto> example_session];
        no_page = obliging_library\<lparr>close_succeeds := (\<lambda>h. h \<noteq> Page 0)\<rparr>;
        no_context = obliging_library\<lparr>close_succeeds := (\<lambda>h. h \<noteq> Context 0)\<rparr>;
        no_browser = obliging_library\<lparr>close_succeeds := (\<lambda>h. h \<noteq> Browser 0)\<rparr>
    in active_browsers st ''s2'' = None
       \<and> BrowserManager_close_session obliging_library ''s2'' st = (False, st)
       \<and> active_browsers st ''s1'' = Some example_session
       \<and> fst (BrowserManager_close_session obliging_library ''s1'' st) = True
       \<and> active_browsers (snd (BrowserManager_close_session obliging_library ''s1'' st)) ''s1''
           = None
       \<and> calls (snd (BrowserManager_close_session obliging_library ''s1'' st))
           = [close_handle (Page 0), close_handle (Context 0), close_handle (Browser 0)]
       \<and> fst (BrowserManager_close_session obliging_library ''s1''
                (snd (BrowserManager_close_session obliging_library ''s1'' st))) = False
       \<and> \<not> close_succeeds no_page (page example_session)
       \<and> BrowserManager_close_session no_page ''s1'' st
           = (False, st\<lparr>calls := [close_handle (Page 0)]\<rparr>)
       \<and> close_succeeds no_context (page example_session)
       \<and> \<not> close_succeeds no_context (browser_context example_session)
       \<and> BrowserManager_close_session no_context ''s1'' st
           = (False, st\<lparr>calls := [close_handle (Page 0), close_handle (Context 0)]\<rparr>)
       \<and> close_succeeds no_browser (browser_context example_session)
       \<and> \<not> close_succeeds no_browser (browser example_session)
       \<and> BrowserManager_close_session no_browser ''s1'' st
           = (False, st\<lparr>calls := [close_handle (Page 0), close_handle (Context 0),
                                   close_handle (Browser 0)]\<rparr>)
       \<and> active_browsers (snd (BrowserManager_close_session no_browser ''s1'' st)) ''s1''
           = Some example_session)"
  using close_session_outcomes
    [of "example_state (example_task '''' PENDING) [] [''s1'' \<mapsto> example_session]" "''s2''"
        obliging_library example_session obliging_library]
    close_session_outcomes
    [of "example_state (example_task '''' PENDING) [] [''s1'' \<mapsto> example_session]" "''s1''"
        obliging_library example_session obliging_library]
    close_session_outcomes
    [of "example_state (example_task '''' PENDING) [] [''s1'' \<mapsto> example_session]" "''s1''"
        "obliging_library\<lparr>close_succeeds := (\<lambda>h. h \<noteq> Page 0)\<rparr>" example_session
        obliging_library]
    close_session_outcomes
    [of "example_state (example_task '''' PENDING) [] [''s1'' \<mapsto> example_session]" "''s1''"
        "obliging_library\<lparr>close_succeeds := (\<lambda>h. h \<noteq> Context 0)\<rparr>" example_session
        obliging_library]
    close_session_outcomes
    [of "example_state (example_task '''' PENDING) [] [''s1'' \<mapsto> example_session]" "''s1''"
        "obliging_library\<lparr>close_succeeds := (\<lambda>h. h \<noteq> Browser 0)\<rparr>" example_session
        obliging_library]
  by (simp add: BrowserManager_close_session_def record_call_def Let_def example_state_def
        example_session_def obliging_library_def)

text \<open>
  The claim as stated fails for a registered session whose page does not close: the result
  is false, the entry stays, and context and browser are not closed.
\<close>

theorem close_session_failing_close:
  "(let lib = obliging_library\<lparr>close_succeeds := (\<lambda>h. h \<noteq> Page 0)\<rparr>;
        st = example_state (example_task '''' PENDING) [] [''s1'' \<mapsto> example_session];
        r = BrowserManager_close_session lib ''s1'' st
    in active_browsers st ''s1'' = Some example_session
       \<and> fst r = False
       \<and> active_browsers (snd r) ''s1'' = Some example_session
       \<and> calls (snd r) = [close_handle (Page 0)])"
  by (simp add: BrowserManager_close_session_def record_call_def Let_def example_state_def
        example_session_def obliging_library_def)

subsection \<open>Creating a step\<close>

lemma insort_key_before_last:
  "f x \<le> f y \<Longrightarrow> insort_key f x (zs @ [y]) = insort_key f x zs @ [y]"
  by (induction zs) auto

lemma sort_key_greatest_last:
  "\<forall>x\<in>set xs. f x \<le> f y \<Longrightarrow> sort_key f (xs @ [y]) = sort_key f xs @ [y]"
proof -
  have "\<forall>x\<in>set xs. f x \<le> f y \<Longrightarrow>
        foldr (insort_key f) xs (zs @ [y]) = foldr (insort_key f) xs zs @ [y]" for zs
    by (induction xs) (auto simp: insort_key_before_last)
  from this [of "[]"] show "\<forall>x\<in>set xs. f x \<le> f y \<Longrightarrow> ?thesis"
    by (simp add: sort_key_def)
qed

text \<open>
  C10, as amended. A create_step request on a store that answers, whose task id, wait_time
  and timeout fit 64 bits, is stored and returned, added after the rows already in the
  table, in two cases. A negative step_order is replaced by the number of steps the task
  already has; this puts the new step last among the task's steps in the order of
  step_order when every step_order the task already has is below that number. A step_order
  that is not negative and fits 64 bits is stored as given. When the store raises, for the
  mapping as shipped, or for a task id, wait_time, timeout or non-negative step_order
  outside 64 bits, create_step raises and stores nothing.
\<close>

theorem create_step_order:
  "(mappers_ok d \<and> int64 (task_id sd) \<and> int64 (wait_time sd) \<and> int64 (timeout sd)
      \<and> step_order sd < 0
      \<longrightarrow> (\<exists>step. create_step sd d = (Inr step, d\<lparr>steps := steps d @ [step]\<rparr>)
            \<and> step_order step
              = int (length (filter (\<lambda>s. task_id s = task_id sd) (steps d)))
            \<and> ((\<forall>s\<in>set (steps d). task_id s = task_id sd
                   \<longrightarrow> step_order s < int (length (filter (\<lambda>s. task_id s = task_id sd)
                                                     (steps d))))
                \<longrightarrow> sort_key step_order
                      (filter (\<lambda>s. task_id s = task_id sd) (steps d @ [step]))
                    = sort_key step_order (filter (\<lambda>s. task_id s = task_id sd) (steps d))
                      @ [step])))
   \<and> (mappers_ok d \<and> int64 (task_id sd) \<and> int64 (wait_time sd) \<and> int64 (timeout sd)
      \<and> 0 \<le> step_order sd \<and> int64 (step_order sd)
      \<longrightarrow> (\<exists>step. create_step sd d = (Inr step, d\<lparr>steps := steps d @ [step]\<rparr>)
            \<and> step_order step = step_order sd))
   \<and> (\<not> mappers_ok d \<longrightarrow> create_step sd d = (Inl MapperError, d))
   \<and> (mappers_ok d
      \<and> (\<not> int64 (task_id sd) \<or> \<not> int64 (wait_time sd) \<or> \<not> int64 (timeout sd)
          \<or> (0 \<le> step_order sd \<and> \<not> int64 (step_order sd)))
      \<longrightarrow> create_step sd d = (Inl OverflowError, d))"
proof (intro conjI impI)
  assume a: "mappers_ok d \<and> int64 (task_id sd) \<and> int64 (wait_time sd) \<and> int64 (timeout sd)
      \<and> step_order sd < 0"
  let ?n = "int (length (filter (\<lambda>s. task_id s = task_id sd) (steps d)))"
  let ?step = "AutomationStepCreate.extend (sd\<lparr>step_order := ?n\<rparr>)
                 (AutomationStep.fields (next_step_id (steps d)))"
  from a have c: "create_step sd d = (Inr ?step, d\<lparr>steps := steps d @ [?step]\<rparr>)"
    by (simp add: create_step_def query_error_def Let_def)
  have o: "step_order ?step = ?n" and t: "task_id ?step = task_id sd"
    by (simp_all add: AutomationStepCreate.extend_def AutomationStep.fields_def)
  have "sort_key step_order (filter (\<lambda>s. task_id s = task_id sd) (steps d @ [?step]))
          = sort_key step_order (filter (\<lambda>s. task_id s = task_id sd) (steps d)) @ [?step]"
    if "\<forall>s\<in>set (steps d). task_id s = task_id sd \<longrightarrow> step_order s < ?n"
  proof -
    from that o
    have "\<forall>x\<in>set (filter (\<lambda>s. task_id s = task_id sd) (steps d)).
            step_order x \<le> step_order ?step"
      by auto
    from sort_key_greatest_last [OF this] t show ?thesis
      by simp
  qed
  with c o show "\<exists>step. create_step sd d = (Inr step, d\<lparr>steps := steps d @ [step]\<rparr>)
            \<and> step_order step = ?n
            \<and> ((\<forall>s\<in>set (steps d). task_id s = task_id sd \<longrightarrow> step_order s < ?n)
                \<longrightarrow> sort_key step_order
                      (filter (\<lambda>s. task_id s = task_id sd) (steps d @ [step]))
                    = sort_key step_order (filter (\<lambda>s. task_id s = task_id sd) (steps d))
                      @ [step])"
    by blast
next
  assume "mappers_ok d \<and> int64 (task_id sd) \<and> int64 (wait_time sd) \<and> int64 (timeout sd)
      \<and> 0 \<le> step_order sd \<and> int64 (step_order sd)"
  then show "\<exists>step. create_step sd d = (Inr step, d\<lparr>steps := steps d @ [step]\<rparr>)
            \<and> step_order step = step_order sd"
    by (simp add: create_step_def query_error_def Let_def AutomationStepCreate.extend_def
          AutomationStep.fields_def)
next
  assume "\<not> mappers_ok d"
  then show "create_step sd d = (Inl MapperError, d)"
    by (simp add: create_step_def query_error_def)
next
  assume "mappers_ok d
      \<and> (\<not> int64 (task_id sd) \<or> \<not> int64 (wait_time sd) \<or> \<not> int64 (timeout sd)
          \<or> (0 \<le> step_order sd \<and> \<not> int64 (step_order sd)))"
  then show "create_step sd d = (Inl OverflowError, d)"
    by (auto simp: create_step_def query_error_def Let_def)
qed

theorem create_step_order_witness:
  "(let d = db (example_state (example_task [] PENDING)
                 [example_step NAVIGATE 0, (example_step SCROLL 0)\<lparr>task_id := 8\<rparr>] Map.empty);
        neg = example_step_data (- 1);
        big = example_step_data 9223372036854775808
    in mappers_ok d \<and> int64 (task_id neg) \<and> int64 (wait_time neg) \<and> int64 (timeout neg)
       \<and> step_order neg < 0
       \<and> map_sum id step_order (fst (create_step neg d)) = Inr 1
       \<and> map step_order (steps (snd (create_step neg d))) = [0, 0, 1]
       \<and> map step_id
           (sort_key step_order (filter (\<lambda>s. task_id s = 1) (steps (snd (create_step neg d)))))
           = [1, 2]
       \<and> 0 \<le> step_order (example_step_data 5) \<and> int64 (step_order (example_step_data 5))
       \<and> map_sum id step_order (fst (create_step (example_step_data 5) d)) = Inr 5
       \<and> \<not> mappers_ok (d\<lparr>mappers_ok := False\<rparr>)
       \<and> create_step neg (d\<lparr>mappers_ok := False\<rparr>)
           = (Inl MapperError, d\<lparr>mappers_ok := False\<rparr>)
       \<and> 0 \<le> step_order big \<and> \<not> int64 (step_order big)
       \<and> create_step big d = (Inl OverflowError, d))"
  using create_step_order
    [of "db (example_state (example_task [] PENDING)
               [example_step NAVIGATE 0, (example_step SCROLL 0)\<lparr>task_id := 8\<rparr>] Map.empty)"
        "example_step_data (- 1)"]
    create_step_order
    [of "db (example_state (example_task [] PENDING)
               [example_step NAVIGATE 0, (example_step SCROLL 0)\<lparr>task_id := 8\<rparr>] Map.empty)"
        "example_step_data 5"]
    create_step_order
    [of "(db (example_state (example_task [] PENDING)
               [example_step NAVIGATE 0, (example_step SCROLL 0)\<lparr>task_id := 8\<rparr>] Map.empty))
           \<lparr>mappers_ok := False\<rparr>"
        "example_step_data (- 1)"]
    create_step_order
    [of "db (example_state (example_task [] PENDING)
               [example_step NAVIGATE 0, (example_step SCROLL 0)\<lparr>task_id := 8\<rparr>] Map.empty)"
        "example_step_data 9223372036854775808"]
  by (simp add: create_step_def query_error_def int64_def next_step_id_def Let_def
        AutomationStepCreate.extend_def AutomationStep.fields_def example_state_def
        example_step_def example_step_data_def)

text \<open>
  The claim as stated fails where it says that the step is appended after the current last
  step: task 1 has one step, of step_order 5; the request with step_order - 1 is stored
  with step_order 1, and in the order of step_order the new step comes before the old one.
  It fails also for a step_order that is not negative and outside 64 bits, which is not
  stored.
\<close>

theorem negative_order_not_last:
  "(let d = db (example_state (example_task [] PENDING) [example_step NAVIGATE 5] Map.empty);
        r = create_step (example_step_data (- 1)) d;
        big = create_step (example_step_data 9223372036854775808) d
    in map step_order (steps d) = [5]
       \<and> map_sum id step_order (fst r) = Inr 1
       \<and> map step_order (sort_key step_order (filter (\<lambda>s. task_id s = 1) (steps (snd r))))
           = [1, 5]
       \<and> map step_name (sort_key step_order (filter (\<lambda>s. task_id s = 1) (steps (snd r))))
           = [''go'', ''step'']
       \<and> fst big = Inl OverflowError \<and> steps (snd big) = steps d)"
  by (simp add: create_step_def query_error_def int64_def next_step_id_def Let_def
        AutomationStepCreate.extend_def AutomationStep.fields_def example_state_def
        example_step_def example_step_data_def)

end
